theory Spec2Isabelle
  imports Complex_Main "HOL-Library.Multiset"
begin

section \<open>TasteStack: the store, the callers and the responses\<close>

text \<open>
  The backend is a Django REST Framework application whose models, serializers and views
  are given in the project guides (\<^verbatim>\<open>docs/backend/DJANGO_PROJECT_GUIDE.md\<close>,
  \<^verbatim>\<open>docs/development/DJANGO_DEVELOPMENT_GUIDE.md\<close>, where the content entity is called
  \<^verbatim>\<open>Item\<close>) and in \<^verbatim>\<open>docs/backend/DJANGO_INTERVIEW_GUIDE.md\<close> (where it is called
  \<^verbatim>\<open>Recipe\<close>). Both describe the same tables; one record type per table carries the
  fields that the modelled functions read. The timing and ingredient fields of a recipe
  and the \<^verbatim>\<open>hidden\<close> flag of a comment are those of the models in
  \<^verbatim>\<open>docs/backend/BACKEND_GUIDE.md\<close>; the value of a rating is the field \<^verbatim>\<open>rating\<close> of
  the project guide and \<^verbatim>\<open>score\<close> of the interview guide. Primary keys and
  timestamps are natural numbers, rating scores are integers, a table is the list of its
  rows in storage order.
\<close>

record user =
  user_pk :: nat
  email :: string
  username :: string
  password :: string

record recipe =
  recipe_pk :: nat
  title :: string
  description :: string
  ingredients :: "string list"
  prep_time :: nat
  cook_time :: nat
  difficulty :: string
  author :: nat
  recipe_created_at :: nat

record rating =
  rating_pk :: nat
  rating_user :: nat
  rating_item :: nat
  score :: int

record like =
  like_pk :: nat
  like_user :: nat
  like_item :: nat

record comment =
  comment_pk :: nat
  comment_user :: nat
  comment_item :: nat
  content :: string
  hidden :: bool
  created_at :: nat

record db =
  users :: "user list"
  items :: "recipe list"
  ratings :: "rating list"
  likes :: "like list"
  comments :: "comment list"

text \<open>
  \<^verbatim>\<open>request.user\<close> is either Django's \<^verbatim>\<open>AnonymousUser\<close> or a stored user, identified
  by its primary key. \<^verbatim>\<open>self.context.get('request')\<close> may be absent, hence the option
  type in the serializer methods.
\<close>

datatype caller = AnonymousUser | AuthUser nat

record request =
  req_user :: caller

fun is_authenticated :: "caller \<Rightarrow> bool" where
  "is_authenticated AnonymousUser = False"
| "is_authenticated (AuthUser u) = True"

section \<open>Query sets\<close>

text \<open>
  \<^verbatim>\<open>QuerySet.first()\<close> on a query set without an ordering orders by primary key and
  returns the first row, or \<^verbatim>\<open>None\<close>.
\<close>

definition first_by :: "('a \<Rightarrow> nat) \<Rightarrow> 'a list \<Rightarrow> 'a option" where
  "first_by pk rows = (case sort_key pk rows of [] \<Rightarrow> None | r # rest \<Rightarrow> Some r)"

section \<open>Derived values of a recipe\<close>

text \<open>
  \<^verbatim>\<open>sum(...)\<close> of Python adds the elements to 0 from left to right.
\<close>

definition py_sum :: "int list \<Rightarrow> int" where
  "py_sum xs = foldl (+) 0 xs"

text \<open>
  The quotient of two Python integers and the average that the database computes are
  IEEE 754 doubles. A double is modelled by the rational number it denotes, and the
  rounding of an exact quotient to the nearest double (53 significant bits, ties to the
  even significand) by \<open>double_of\<close>. \<open>ilog2 x\<close> is the binary exponent of a positive
  \<open>x\<close>, so that \<open>2 powi (ilog2 x - 52)\<close> is the spacing of the doubles around \<open>x\<close>.
  The exponent range of the format is not modelled: the averages of stored scores
  (64-bit integers over fewer than \<open>2 ^ 63\<close> rows) lie far inside it.
\<close>

fun bitlen :: "nat \<Rightarrow> nat" where
  "bitlen n = (if n = 0 then 0 else Suc (bitlen (n div 2)))"

declare bitlen.simps [simp del]

definition ilog2 :: "rat \<Rightarrow> int" where
  "ilog2 x =
     (if 1 \<le> x then int (bitlen (nat \<lfloor>x\<rfloor>)) - 1
      else - int (bitlen (nat (\<lceil>1 / x\<rceil> - 1))))"

definition round_half_even :: "rat \<Rightarrow> int" where
  "round_half_even y =
     (let f = \<lfloor>y\<rfloor>; r = y - of_int f
      in if r < 1 / 2 then f else if 1 / 2 < r then f + 1 else if even f then f else f + 1)"

definition double_of :: "rat \<Rightarrow> rat" where
  "double_of q =
     (if q = 0 then 0
      else (let ulp = 2 powi (ilog2 \<bar>q\<bar> - 52)
            in sgn q * of_int (round_half_even (\<bar>q\<bar> / ulp)) * ulp))"

text \<open>
  \<^verbatim>\<open>Item.average_rating\<close> (project guide):
  \<^verbatim>\<open>ratings = self.ratings.all()
  if ratings.exists():
      return sum(rating.rating for rating in ratings) / ratings.count()
  return 0\<close>
  The sum is an exact integer; the true division of Python yields the double nearest to
  the exact quotient.
\<close>

definition item_ratings :: "db \<Rightarrow> recipe \<Rightarrow> rating list" where
  "item_ratings d obj = filter (\<lambda>r. rating_item r = recipe_pk obj) (ratings d)"

definition average_rating :: "db \<Rightarrow> recipe \<Rightarrow> rat" where
  "average_rating d obj =
     (let ratings = item_ratings d obj
      in if ratings \<noteq> []
         then double_of (of_int (py_sum (map score ratings)) / of_nat (length ratings))
         else 0)"

text \<open>
  \<^verbatim>\<open>Recipe.average_rating\<close> (interview guide):
  \<^verbatim>\<open>return self.ratings.aggregate(models.Avg('score'))['score__avg'] or 0\<close>
  The aggregate is \<^verbatim>\<open>None\<close> over no rows; over integer rows the development database
  (SQLite) converts the integer sum to a double and divides it by the count in double
  arithmetic. \<^verbatim>\<open>x or 0\<close> is 0 when \<^verbatim>\<open>x\<close> is \<^verbatim>\<open>None\<close> or zero.
\<close>

definition Avg :: "int list \<Rightarrow> rat option" where
  "Avg xs =
     (if xs = [] then None
      else Some (double_of (double_of (of_int (sum_list xs)) / of_nat (length xs))))"

definition or_0 :: "rat option \<Rightarrow> rat" where
  "or_0 v = (case v of None \<Rightarrow> 0 | Some a \<Rightarrow> if a = 0 then 0 else a)"

definition average_rating_agg :: "db \<Rightarrow> recipe \<Rightarrow> rat" where
  "average_rating_agg d obj = or_0 (Avg (map score (item_ratings d obj)))"

text \<open>\<^verbatim>\<open>Item.likes_count\<close>: \<^verbatim>\<open>return self.likes.count()\<close>.\<close>

definition likes_count :: "db \<Rightarrow> recipe \<Rightarrow> nat" where
  "likes_count d obj = length (filter (\<lambda>l. like_item l = recipe_pk obj) (likes d))"


section \<open>The per-caller fields of the serialized recipe\<close>

text \<open>
  \<^verbatim>\<open>ItemSerializer.get_is_liked\<close>:
  \<^verbatim>\<open>request = self.context.get('request')
  if request and request.user.is_authenticated:
      return Like.objects.filter(user=request.user, item=obj).exists()
  return False\<close>
\<close>

definition get_is_liked :: "db \<Rightarrow> request option \<Rightarrow> recipe \<Rightarrow> bool" where
  "get_is_liked d request obj =
     (case request of
        None \<Rightarrow> False
      | Some rq \<Rightarrow>
          (case req_user rq of
             AnonymousUser \<Rightarrow> False
           | AuthUser u \<Rightarrow>
               filter (\<lambda>l. like_user l = u \<and> like_item l = recipe_pk obj) (likes d) \<noteq> []))"

text \<open>
  \<^verbatim>\<open>ItemSerializer.get_user_rating\<close>:
  \<^verbatim>\<open>request = self.context.get('request')
  if request and request.user.is_authenticated:
      rating = Rating.objects.filter(user=request.user, item=obj).first()
      return rating.rating if rating else None
  return None\<close>
\<close>

definition get_user_rating :: "db \<Rightarrow> request option \<Rightarrow> recipe \<Rightarrow> int option" where
  "get_user_rating d request obj =
     (case request of
        None \<Rightarrow> None
      | Some rq \<Rightarrow>
          (case req_user rq of
             AnonymousUser \<Rightarrow> None
           | AuthUser u \<Rightarrow>
               (case first_by rating_pk
                       (filter (\<lambda>r. rating_user r = u \<and> rating_item r = recipe_pk obj) (ratings d)) of
                  None \<Rightarrow> None
                | Some rating \<Rightarrow> Some (score rating))))"

section \<open>Model managers: get, create, save, delete\<close>

text \<open>
  \<^verbatim>\<open>Model.objects.get(...)\<close> returns the single matching row, raises
  \<^verbatim>\<open>DoesNotExist\<close> when no row matches and \<^verbatim>\<open>MultipleObjectsReturned\<close> when several
  do. The argument is the list of matching rows.
\<close>

datatype db_error = DoesNotExist | MultipleObjectsReturned

definition objects_get :: "'a list \<Rightarrow> db_error + 'a" where
  "objects_get rows =
     (case rows of
        [] \<Rightarrow> Inl DoesNotExist
      | r # rest \<Rightarrow> (case rest of [] \<Rightarrow> Inr r | r' # rest' \<Rightarrow> Inl MultipleObjectsReturned))"

text \<open>
  A created row receives the next primary key of its table; \<^verbatim>\<open>save()\<close> of a loaded row
  rewrites the row with that primary key; \<^verbatim>\<open>delete()\<close> removes it.
\<close>

definition next_pk :: "('a \<Rightarrow> nat) \<Rightarrow> 'a list \<Rightarrow> nat" where
  "next_pk pk rows = Suc (foldr (\<lambda>r m. max (pk r) m) rows 0)"

definition save_row :: "('a \<Rightarrow> nat) \<Rightarrow> 'a \<Rightarrow> 'a list \<Rightarrow> 'a list" where
  "save_row pk obj rows = map (\<lambda>x. if pk x = pk obj then obj else x) rows"

definition delete_row :: "('a \<Rightarrow> nat) \<Rightarrow> 'a \<Rightarrow> 'a list \<Rightarrow> 'a list" where
  "delete_row pk obj rows = filter (\<lambda>x. pk x \<noteq> pk obj) rows"

text \<open>
  The constraints that the database enforces on the Rating and Like tables: the primary
  key, and \<^verbatim>\<open>unique_together = ('user', 'item')\<close>.
\<close>

definition rating_constraints :: "db \<Rightarrow> bool" where
  "rating_constraints d \<longleftrightarrow>
     distinct (map rating_pk (ratings d)) \<and>
     distinct (map (\<lambda>r. (rating_user r, rating_item r)) (ratings d))"

definition like_constraints :: "db \<Rightarrow> bool" where
  "like_constraints d \<longleftrightarrow>
     distinct (map like_pk (likes d)) \<and>
     distinct (map (\<lambda>l. (like_user l, like_item l)) (likes d))"

definition rating_rows :: "db \<Rightarrow> nat \<Rightarrow> nat \<Rightarrow> rating list" where
  "rating_rows d u i = filter (\<lambda>r. rating_user r = u \<and> rating_item r = i) (ratings d)"

definition like_rows :: "db \<Rightarrow> nat \<Rightarrow> nat \<Rightarrow> like list" where
  "like_rows d u i = filter (\<lambda>l. like_user l = u \<and> like_item l = i) (likes d)"

text \<open>
  \<^verbatim>\<open>Rating.objects.update_or_create(user=user, item_id=item_id, defaults={'rating': v})\<close>:
  the matching row is fetched with \<^verbatim>\<open>get\<close>; if it exists its rating is set and the row
  saved, if none exists a row is created with the defaults.
\<close>

definition update_or_create_rating :: "db \<Rightarrow> nat \<Rightarrow> nat \<Rightarrow> int \<Rightarrow> db_error + db" where
  "update_or_create_rating d u i v =
     (case objects_get (rating_rows d u i) of
        Inr obj \<Rightarrow> Inr (d\<lparr>ratings := save_row rating_pk (obj\<lparr>score := v\<rparr>) (ratings d)\<rparr>)
      | Inl DoesNotExist \<Rightarrow>
          Inr (d\<lparr>ratings := ratings d @
                 [\<lparr>rating_pk = next_pk rating_pk (ratings d), rating_user = u,
                   rating_item = i, score = v\<rparr>]\<rparr>)
      | Inl MultipleObjectsReturned \<Rightarrow> Inl MultipleObjectsReturned)"

text \<open>
  \<^verbatim>\<open>Rating.objects.get_or_create(user=..., recipe=..., defaults={'score': score})\<close>
  returns the row and whether it was created.
\<close>

definition get_or_create_rating ::
  "db \<Rightarrow> nat \<Rightarrow> nat \<Rightarrow> int \<Rightarrow> db_error + (rating \<times> bool \<times> db)" where
  "get_or_create_rating d u i v =
     (case objects_get (rating_rows d u i) of
        Inr obj \<Rightarrow> Inr (obj, False, d)
      | Inl DoesNotExist \<Rightarrow>
          (let obj = \<lparr>rating_pk = next_pk rating_pk (ratings d), rating_user = u,
                      rating_item = i, score = v\<rparr>
           in Inr (obj, True, d\<lparr>ratings := ratings d @ [obj]\<rparr>))
      | Inl MultipleObjectsReturned \<Rightarrow> Inl MultipleObjectsReturned)"

text \<open>\<^verbatim>\<open>Like.objects.get_or_create(user=request.user, recipe=recipe)\<close>.\<close>

definition get_or_create_like :: "db \<Rightarrow> nat \<Rightarrow> nat \<Rightarrow> db_error + (like \<times> bool \<times> db)" where
  "get_or_create_like d u i =
     (case objects_get (like_rows d u i) of
        Inr obj \<Rightarrow> Inr (obj, False, d)
      | Inl DoesNotExist \<Rightarrow>
          (let obj = \<lparr>like_pk = next_pk like_pk (likes d), like_user = u, like_item = i\<rparr>
           in Inr (obj, True, d\<lparr>likes := likes d @ [obj]\<rparr>))
      | Inl MultipleObjectsReturned \<Rightarrow> Inl MultipleObjectsReturned)"

section \<open>Responses\<close>

text \<open>
  A response is its HTTP status and its body. \<^verbatim>\<open>ItemSerializer(item, context).data\<close>
  is the stored row together with the four computed fields.
\<close>

record item_data =
  data_item :: recipe
  data_average_rating :: rat
  data_likes_count :: nat
  data_is_liked :: bool
  data_user_rating :: "int option"

datatype body =
    Error string
  | NoContent
  | ItemData item_data
  | UserToken user string
  | Liked bool
  | Average rat
  | CommentData comment

record response =
  status :: nat
  body :: body

definition ItemSerializer_data :: "db \<Rightarrow> request option \<Rightarrow> recipe \<Rightarrow> item_data" where
  "ItemSerializer_data d request obj =
     \<lparr>data_item = obj, data_average_rating = average_rating d obj,
      data_likes_count = likes_count d obj, data_is_liked = get_is_liked d request obj,
      data_user_rating = get_user_rating d request obj\<rparr>"

text \<open>
  A request without credentials that meets a permission class requiring authentication is
  answered 401 (\<^verbatim>\<open>Authentication credentials were not provided.\<close>); an authenticated
  caller who fails a permission class is answered 403; an exception that no handler
  catches is answered 500.
\<close>

definition not_authenticated :: response where
  "not_authenticated =
     \<lparr>status = 401, body = Error ''Authentication credentials were not provided.''\<rparr>"

definition forbidden :: response where
  "forbidden =
     \<lparr>status = 403, body = Error ''You do not have permission to perform this action.''\<rparr>"

definition not_found :: response where
  "not_found = \<lparr>status = 404, body = Error ''Not found.''\<rparr>"

definition server_error :: response where
  "server_error = \<lparr>status = 500, body = Error ''Internal server error''\<rparr>"

text \<open>
  \<^verbatim>\<open>get_object_or_404(Model, id=...)\<close> and the generic views' \<^verbatim>\<open>get_object()\<close> turn
  \<^verbatim>\<open>DoesNotExist\<close> into a 404 response.
\<close>

definition get_object_or_404 :: "'a list \<Rightarrow> response + 'a" where
  "get_object_or_404 rows =
     (case objects_get rows of
        Inr obj \<Rightarrow> Inr obj
      | Inl DoesNotExist \<Rightarrow> Inl not_found
      | Inl MultipleObjectsReturned \<Rightarrow> Inl server_error)"

definition items_with_pk :: "db \<Rightarrow> nat \<Rightarrow> recipe list" where
  "items_with_pk d pk = filter (\<lambda>i. recipe_pk i = pk) (items d)"

section \<open>Rating a recipe\<close>

text \<open>
  \<^verbatim>\<open>RatingSerializer\<close> is a model serializer over the field
  \<^verbatim>\<open>rating = PositiveIntegerField(choices=[(i, i) for i in range(1, 6)])\<close>; its
  validation accepts an integer among the choices and rejects a missing value.
\<close>

definition RatingSerializer_validate :: "int option \<Rightarrow> int option" where
  "RatingSerializer_validate data =
     (case data of None \<Rightarrow> None | Some v \<Rightarrow> if v \<in> set [1..5] then Some v else None)"

text \<open>
  \<^verbatim>\<open>rate_item\<close> (project guide), under \<^verbatim>\<open>@permission_classes([IsAuthenticated])\<close>:
  \<^verbatim>\<open>try:
      item = Item.objects.get(pk=pk)
  except Item.DoesNotExist:
      return Response({'error': 'Item not found'}, status=status.HTTP_404_NOT_FOUND)
  serializer = RatingSerializer(data={'rating': request.data.get('rating')}, context=...)
  if serializer.is_valid():
      serializer.save()
      item_serializer = ItemSerializer(item, context={'request': request})
      return Response(item_serializer.data, status=status.HTTP_201_CREATED)
  return Response(serializer.errors, status=status.HTTP_400_BAD_REQUEST)\<close>
  where \<^verbatim>\<open>serializer.save()\<close> runs \<^verbatim>\<open>RatingSerializer.create\<close>, the
  \<^verbatim>\<open>update_or_create\<close> above. The body of the 400 answer stands for the serializer's
  error map.
\<close>

definition rate_item :: "db \<Rightarrow> caller \<Rightarrow> nat \<Rightarrow> int option \<Rightarrow> response \<times> db" where
  "rate_item d c pk data =
     (case c of
        AnonymousUser \<Rightarrow> (not_authenticated, d)
      | AuthUser u \<Rightarrow>
          (case objects_get (items_with_pk d pk) of
             Inl DoesNotExist \<Rightarrow> (\<lparr>status = 404, body = Error ''Item not found''\<rparr>, d)
           | Inl MultipleObjectsReturned \<Rightarrow> (server_error, d)
           | Inr item \<Rightarrow>
               (case RatingSerializer_validate data of
                  None \<Rightarrow> (\<lparr>status = 400, body = Error ''rating''\<rparr>, d)
                | Some v \<Rightarrow>
                    (case update_or_create_rating d u pk v of
                       Inl e \<Rightarrow> (server_error, d)
                     | Inr d' \<Rightarrow>
                         (\<lparr>status = 201,
                           body = ItemData (ItemSerializer_data d' (Some \<lparr>req_user = c\<rparr>) item)\<rparr>,
                          d')))))"

text \<open>
  \<^verbatim>\<open>rate_recipe\<close> (interview guide); the request is that of an authenticated user and
  carries an integer score:
  \<^verbatim>\<open>recipe = get_object_or_404(Recipe, id=recipe_id)
  score = request.data.get('score')
  rating, created = Rating.objects.get_or_create(
      user=request.user, recipe=recipe, defaults={'score': score})
  if not created:
      rating.score = score
      rating.save()
  return Response({'success': True, 'average': recipe.average_rating})\<close>
\<close>

definition rate_recipe :: "db \<Rightarrow> nat \<Rightarrow> nat \<Rightarrow> int \<Rightarrow> response \<times> db" where
  "rate_recipe d u recipe_id sc =
     (case get_object_or_404 (items_with_pk d recipe_id) of
        Inl resp \<Rightarrow> (resp, d)
      | Inr recipe \<Rightarrow>
          (case get_or_create_rating d u recipe_id sc of
             Inl e \<Rightarrow> (server_error, d)
           | Inr (rating, created, d1) \<Rightarrow>
               (let d2 = (if \<not> created
                          then d1\<lparr>ratings := save_row rating_pk (rating\<lparr>score := sc\<rparr>) (ratings d1)\<rparr>
                          else d1)
                in (\<lparr>status = 200, body = Average (average_rating_agg d2 recipe)\<rparr>, d2))))"

section \<open>Liking a recipe\<close>

text \<open>
  \<^verbatim>\<open>like_recipe\<close> (interview guide), under \<^verbatim>\<open>@permission_classes([IsAuthenticated])\<close>:
  \<^verbatim>\<open>recipe = get_object_or_404(Recipe, id=recipe_id)
  like, created = Like.objects.get_or_create(user=request.user, recipe=recipe)
  if not created:
      like.delete()
      return Response({'liked': False})
  return Response({'liked': True})\<close>
\<close>

definition like_recipe :: "db \<Rightarrow> caller \<Rightarrow> nat \<Rightarrow> response \<times> db" where
  "like_recipe d c recipe_id =
     (case c of
        AnonymousUser \<Rightarrow> (not_authenticated, d)
      | AuthUser u \<Rightarrow>
          (case get_object_or_404 (items_with_pk d recipe_id) of
             Inl resp \<Rightarrow> (resp, d)
           | Inr recipe \<Rightarrow>
               (case get_or_create_like d u recipe_id of
                  Inl e \<Rightarrow> (server_error, d)
                | Inr (like, created, d1) \<Rightarrow>
                    if \<not> created
                    then (\<lparr>status = 200, body = Liked False\<rparr>,
                          d1\<lparr>likes := delete_row like_pk like (likes d1)\<rparr>)
                    else (\<lparr>status = 200, body = Liked True\<rparr>, d1))))"

text \<open>
  Modelled from the spec: the view behind
  \<^verbatim>\<open>POST /api/interactions/recipes/{id}/unlike/\<close> is not among the sources, only its
  entry in the API reference (answer 204, no content) is. The specification says that
  \<^verbatim>\<open>unlikeRecipe(caller, recipeId)\<close> removes the Like record of the caller for the
  recipe and that unliking a non-existent like is a no-op.
\<close>

definition unlikeRecipe :: "db \<Rightarrow> caller \<Rightarrow> nat \<Rightarrow> response \<times> db" where
  "unlikeRecipe d c recipe_id =
     (case c of
        AnonymousUser \<Rightarrow> (not_authenticated, d)
      | AuthUser u \<Rightarrow>
          (case get_object_or_404 (items_with_pk d recipe_id) of
             Inl resp \<Rightarrow> (resp, d)
           | Inr recipe \<Rightarrow>
               (\<lparr>status = 204, body = NoContent\<rparr>,
                d\<lparr>likes := filter (\<lambda>l. \<not> (like_user l = u \<and> like_item l = recipe_id)) (likes d)\<rparr>)))"

section \<open>Permissions and the recipe detail views\<close>

datatype http_method = GET | HEAD | OPTIONS | POST | PUT | PATCH | DELETE

definition SAFE_METHODS :: "http_method list" where
  "SAFE_METHODS = [GET, HEAD, OPTIONS]"

text \<open>
  \<^verbatim>\<open>IsOwnerOrReadOnly.has_object_permission\<close>:
  \<^verbatim>\<open>if request.method in permissions.SAFE_METHODS:
      return True
  return obj.author == request.user\<close>
\<close>

definition IsOwnerOrReadOnly_has_object_permission :: "http_method \<Rightarrow> caller \<Rightarrow> recipe \<Rightarrow> bool" where
  "IsOwnerOrReadOnly_has_object_permission m c obj =
     (if m \<in> set SAFE_METHODS then True else AuthUser (author obj) = c)"

text \<open>
  \<^verbatim>\<open>IsAuthenticatedOrReadOnly.has_permission\<close>:
  \<^verbatim>\<open>if request.method in permissions.SAFE_METHODS:
      return True
  return request.user and request.user.is_authenticated\<close>
\<close>

definition IsAuthenticatedOrReadOnly_has_permission :: "http_method \<Rightarrow> caller \<Rightarrow> bool" where
  "IsAuthenticatedOrReadOnly_has_permission m c =
     (if m \<in> set SAFE_METHODS then True else is_authenticated c)"

text \<open>
  The answer to a failed permission class, as the interview guide describes it: 401 when
  no credentials were given, 403 for an authenticated caller.
\<close>

definition permission_denied :: "caller \<Rightarrow> response" where
  "permission_denied c = (case c of AnonymousUser \<Rightarrow> not_authenticated | AuthUser u \<Rightarrow> forbidden)"

text \<open>
  Deleting a recipe cascades to its ratings, likes and comments
  (\<^verbatim>\<open>on_delete=models.CASCADE\<close>); the generic \<^verbatim>\<open>destroy\<close> then answers 204.
\<close>

definition delete_item :: "db \<Rightarrow> recipe \<Rightarrow> db" where
  "delete_item d instance =
     d\<lparr>items := delete_row recipe_pk instance (items d),
       ratings := filter (\<lambda>r. rating_item r \<noteq> recipe_pk instance) (ratings d),
       likes := filter (\<lambda>l. like_item l \<noteq> recipe_pk instance) (likes d),
       comments := filter (\<lambda>c. comment_item c \<noteq> recipe_pk instance) (comments d)\<rparr>"

definition super_destroy :: "db \<Rightarrow> recipe \<Rightarrow> response \<times> db" where
  "super_destroy d instance = (\<lparr>status = 204, body = NoContent\<rparr>, delete_item d instance)"

text \<open>
  \<^verbatim>\<open>ItemDetailView\<close> (project and development guides) has
  \<^verbatim>\<open>permission_classes = [AllowAny]\<close>, so that every caller reaches the handlers:
  \<^verbatim>\<open>def update(self, request, *args, **kwargs):
      instance = self.get_object()
      if instance.author != request.user:
          return Response({'error': 'You do not have permission to edit this item'},
                          status=status.HTTP_403_FORBIDDEN)
      return super().update(request, *args, **kwargs)\<close>
  and \<^verbatim>\<open>destroy\<close> alike. The generic \<^verbatim>\<open>super().update\<close> (validation of the request
  data and saving) belongs to the framework; it is the parameter \<open>super_update\<close>.
\<close>

definition ItemDetailView_update ::
  "(db \<Rightarrow> recipe \<Rightarrow> 'a \<Rightarrow> response \<times> db) \<Rightarrow> db \<Rightarrow> caller \<Rightarrow> nat \<Rightarrow> 'a \<Rightarrow> response \<times> db" where
  "ItemDetailView_update super_update d c pk data =
     (case get_object_or_404 (items_with_pk d pk) of
        Inl resp \<Rightarrow> (resp, d)
      | Inr instance \<Rightarrow>
          if AuthUser (author instance) \<noteq> c
          then (\<lparr>status = 403, body = Error ''You do not have permission to edit this item''\<rparr>, d)
          else super_update d instance data)"

definition ItemDetailView_destroy :: "db \<Rightarrow> caller \<Rightarrow> nat \<Rightarrow> response \<times> db" where
  "ItemDetailView_destroy d c pk =
     (case get_object_or_404 (items_with_pk d pk) of
        Inl resp \<Rightarrow> (resp, d)
      | Inr instance \<Rightarrow>
          if AuthUser (author instance) \<noteq> c
          then (\<lparr>status = 403, body = Error ''You do not have permission to delete this item''\<rparr>, d)
          else super_destroy d instance)"

text \<open>
  \<^verbatim>\<open>RecipeViewSet\<close> (interview guide) has
  \<^verbatim>\<open>permission_classes = [IsAuthenticatedOrReadOnly, IsOwnerOrReadOnly]\<close>. The first is
  checked before the handler runs, the second by \<^verbatim>\<open>get_object()\<close> on the object found;
  then the handler compares the author itself:
  \<^verbatim>\<open>def update(self, request, *args, **kwargs):
      recipe = self.get_object()
      if recipe.author != request.user:
          raise PermissionDenied("You can only edit your own recipes.")
      return super().update(request, *args, **kwargs)\<close>
  and \<^verbatim>\<open>destroy\<close> alike; \<^verbatim>\<open>PermissionDenied\<close> is answered 403.
\<close>

definition RecipeViewSet_get_object :: "db \<Rightarrow> http_method \<Rightarrow> caller \<Rightarrow> nat \<Rightarrow> response + recipe" where
  "RecipeViewSet_get_object d m c pk =
     (case get_object_or_404 (items_with_pk d pk) of
        Inl resp \<Rightarrow> Inl resp
      | Inr obj \<Rightarrow>
          if IsOwnerOrReadOnly_has_object_permission m c obj then Inr obj
          else Inl (permission_denied c))"

definition RecipeViewSet_update ::
  "(db \<Rightarrow> recipe \<Rightarrow> 'a \<Rightarrow> response \<times> db) \<Rightarrow> db \<Rightarrow> caller \<Rightarrow> nat \<Rightarrow> 'a \<Rightarrow> response \<times> db" where
  "RecipeViewSet_update super_update d c pk data =
     (if \<not> IsAuthenticatedOrReadOnly_has_permission PUT c then (permission_denied c, d)
      else
        (case RecipeViewSet_get_object d PUT c pk of
           Inl resp \<Rightarrow> (resp, d)
         | Inr recipe \<Rightarrow>
             if AuthUser (author recipe) \<noteq> c
             then (\<lparr>status = 403, body = Error ''You can only edit your own recipes.''\<rparr>, d)
             else super_update d recipe data))"

definition RecipeViewSet_destroy :: "db \<Rightarrow> caller \<Rightarrow> nat \<Rightarrow> response \<times> db" where
  "RecipeViewSet_destroy d c pk =
     (if \<not> IsAuthenticatedOrReadOnly_has_permission DELETE c then (permission_denied c, d)
      else
        (case RecipeViewSet_get_object d DELETE c pk of
           Inl resp \<Rightarrow> (resp, d)
         | Inr recipe \<Rightarrow>
             if AuthUser (author recipe) \<noteq> c
             then (\<lparr>status = 403, body = Error ''You can only delete your own recipes.''\<rparr>, d)
             else super_destroy d recipe))"

section \<open>Login\<close>

text \<open>
  \<^verbatim>\<open>login\<close> (project and development guides), under
  \<^verbatim>\<open>@permission_classes([AllowAny])\<close>:
  \<^verbatim>\<open>email = request.data.get('email')
  password = request.data.get('password')
  if email and password:
      try:
          user = User.objects.get(email=email)
      except User.DoesNotExist:
          return Response({'error': 'Invalid credentials'}, status=status.HTTP_400_BAD_REQUEST)
      if user.check_password(password):
          refresh = RefreshToken.for_user(user)
          return Response({'user': UserSerializer(user).data,
                           'token': str(refresh.access_token)})
      else:
          return Response({'error': 'Invalid credentials'}, status=status.HTTP_400_BAD_REQUEST)
  else:
      return Response({'error': 'Email and password are required'},
                      status=status.HTTP_400_BAD_REQUEST)\<close>
  The password hasher and the token issuer belong to the framework; they are the
  parameters \<open>check_password\<close> (stored user, raw password) and \<open>for_user\<close>. A field
  that the request lacks is \<open>None\<close>; \<open>None\<close> and the empty string are falsy.
\<close>

definition users_with_email :: "db \<Rightarrow> string \<Rightarrow> user list" where
  "users_with_email d e = filter (\<lambda>u. email u = e) (users d)"

definition truthy :: "string option \<Rightarrow> bool" where
  "truthy v = (case v of None \<Rightarrow> False | Some s \<Rightarrow> s \<noteq> [])"

definition login ::
  "(user \<Rightarrow> string \<Rightarrow> bool) \<Rightarrow> (user \<Rightarrow> string) \<Rightarrow> db \<Rightarrow> string option \<Rightarrow> string option \<Rightarrow> response" where
  "login check_password for_user d email_in password_in =
     (case (email_in, password_in) of
        (Some e, Some p) \<Rightarrow>
          if truthy email_in \<and> truthy password_in then
            (case objects_get (users_with_email d e) of
               Inl DoesNotExist \<Rightarrow> \<lparr>status = 400, body = Error ''Invalid credentials''\<rparr>
             | Inl MultipleObjectsReturned \<Rightarrow> server_error
             | Inr user \<Rightarrow>
                 if check_password user p
                 then \<lparr>status = 200, body = UserToken user (for_user user)\<rparr>
                 else \<lparr>status = 400, body = Error ''Invalid credentials''\<rparr>)
          else \<lparr>status = 400, body = Error ''Email and password are required''\<rparr>
      | _ \<Rightarrow> \<lparr>status = 400, body = Error ''Email and password are required''\<rparr>)"

section \<open>Searching and listing recipes\<close>

text \<open>
  The lookup \<^verbatim>\<open>field__icontains=q\<close> selects the rows whose field contains \<^verbatim>\<open>q\<close> as
  a substring, letter case ignored; the development database (SQLite) folds the case of
  the ASCII letters.
\<close>

definition ascii_lower :: "char \<Rightarrow> char" where
  "ascii_lower c =
     (let n = (of_char c :: nat) in if 65 \<le> n \<and> n \<le> 90 then char_of (n + 32) else c)"

fun startswith :: "string \<Rightarrow> string \<Rightarrow> bool" where
  "startswith hay [] = True"
| "startswith [] (n # ns) = False"
| "startswith (h # hs) (n # ns) = (h = n \<and> startswith hs ns)"

fun contains :: "string \<Rightarrow> string \<Rightarrow> bool" where
  "contains [] needle = (needle = [])"
| "contains (h # hs) needle = (startswith (h # hs) needle \<or> contains hs needle)"

definition icontains :: "string \<Rightarrow> string \<Rightarrow> bool" where
  "icontains field q = contains (map ascii_lower field) (map ascii_lower q)"

text \<open>
  \<^verbatim>\<open>ItemListCreateView.get_queryset\<close> (project and development guides):
  \<^verbatim>\<open>queryset = Item.objects.select_related('author').all()
  search = self.request.query_params.get('q', None)
  if search:
      queryset = queryset.filter(
          models.Q(title__icontains=search) | models.Q(description__icontains=search))
  difficulty = self.request.query_params.get('difficulty', None)
  if difficulty:
      queryset = queryset.filter(difficulty=difficulty)
  return queryset\<close>
\<close>

definition get_queryset :: "db \<Rightarrow> string option \<Rightarrow> string option \<Rightarrow> recipe list" where
  "get_queryset d search difficulty_in =
     (let queryset = items d;
          queryset =
            (case search of
               None \<Rightarrow> queryset
             | Some s \<Rightarrow>
                 if s \<noteq> []
                 then filter (\<lambda>i. icontains (title i) s \<or> icontains (description i) s) queryset
                 else queryset);
          queryset =
            (case difficulty_in of
               None \<Rightarrow> queryset
             | Some v \<Rightarrow> if v \<noteq> [] then filter (\<lambda>i. difficulty i = v) queryset else queryset)
      in queryset)"

text \<open>
  \<^verbatim>\<open>search_recipes\<close> (interview guide):
  \<^verbatim>\<open>query = request.GET.get('q', '')
  if not query:
      return Response({'results': []})
  recipes = Recipe.objects.filter(
      Q(title__icontains=query) | Q(description__icontains=query) |
      Q(author__username__icontains=query)
  ).select_related('author').prefetch_related('images')[:20]\<close>
\<close>

definition author_username_icontains :: "db \<Rightarrow> recipe \<Rightarrow> string \<Rightarrow> bool" where
  "author_username_icontains d r q =
     list_ex (\<lambda>u. user_pk u = author r \<and> icontains (username u) q) (users d)"

definition search_recipes :: "db \<Rightarrow> string \<Rightarrow> recipe list" where
  "search_recipes d query =
     (if query = [] then []
      else take 20 (filter (\<lambda>r. icontains (title r) query \<or> icontains (description r) query \<or>
                                author_username_icontains d r query) (items d)))"

text \<open>
  The wording of the specification: \<open>q\<close> is a case-insensitive substring of \<open>s\<close>.
\<close>

definition ci_substring :: "string \<Rightarrow> string \<Rightarrow> bool" where
  "ci_substring q s \<longleftrightarrow> (\<exists>pre post. map ascii_lower s = pre @ map ascii_lower q @ post)"

text \<open>
  Modelled from the spec: the recipe list view that reads the query parameter
  \<^verbatim>\<open>max_time\<close> is not among the sources; the API reference only lists the parameter of
  \<^verbatim>\<open>GET /api/recipes/\<close>. The specification says that the filter bounds the total time
  (\<^verbatim>\<open>max total time (prep+cook)\<close>); without the parameter nothing is filtered.
\<close>

definition listRecipes :: "db \<Rightarrow> nat option \<Rightarrow> recipe list" where
  "listRecipes d max_time =
     (case max_time of
        None \<Rightarrow> items d
      | Some m \<Rightarrow> filter (\<lambda>r. prep_time r + cook_time r \<le> m) (items d))"

section \<open>Listing comments\<close>

text \<open>
  \<^verbatim>\<open>Comment.Meta\<close> has \<^verbatim>\<open>ordering = ['-created_at']\<close>: a query set of comments comes
  ordered by creation time, newest first. The order among comments of equal creation time
  is the database's choice; here the later row comes first.
\<close>

definition Comment_objects :: "db \<Rightarrow> comment list" where
  "Comment_objects d = rev (sort_key created_at (comments d))"

text \<open>
  Modelled from the spec: the view behind
  \<^verbatim>\<open>GET /api/interactions/recipes/{id}/comments/\<close> is not among the sources, only its
  entry in the API reference is. The specification says that the listing returns the
  comments of the recipe and that hidden comments are excluded from the default listing
  but retained in storage. The view is taken to filter the model's default query set.
\<close>

definition listComments :: "db \<Rightarrow> nat \<Rightarrow> comment list" where
  "listComments d recipe_id =
     filter (\<lambda>c. comment_item c = recipe_id \<and> \<not> hidden c) (Comment_objects d)"

section \<open>Editing, deleting and hiding comments\<close>

text \<open>
  Modelled from the spec: the views behind
  \<^verbatim>\<open>PUT .../comments/{comment_id}/edit/\<close>, \<^verbatim>\<open>DELETE .../comments/{comment_id}/delete/\<close>
  and \<^verbatim>\<open>POST .../comments/{comment_id}/hide/\<close> are not among the sources, only their
  entries in the API reference are (with the bearer token, and the notes that only the
  comment author can edit and that the comment author or the recipe author can delete or
  hide). The specification says: \<^verbatim>\<open>editComment(caller, commentId, content)\<close> is for the
  comment owner only and fails with \<^verbatim>\<open>PermissionError\<close> otherwise;
  \<^verbatim>\<open>deleteComment(caller, commentId)\<close> and \<^verbatim>\<open>hideComment(caller, commentId)\<close> are for
  the comment owner or the recipe's owner, and hiding toggles the hidden flag; a missing
  token is an \<^verbatim>\<open>AuthError\<close>; a violation of ownership fails with \<^verbatim>\<open>PermissionError\<close>,
  distinct from \<^verbatim>\<open>NotFoundError\<close> when the target record does not exist; existence is
  checked before ownership.
\<close>

definition comments_with_pk :: "db \<Rightarrow> nat \<Rightarrow> comment list" where
  "comments_with_pk d k = filter (\<lambda>c. comment_pk c = k) (comments d)"

definition is_recipe_owner :: "db \<Rightarrow> nat \<Rightarrow> comment \<Rightarrow> bool" where
  "is_recipe_owner d u cm =
     list_ex (\<lambda>r. recipe_pk r = comment_item cm \<and> author r = u) (items d)"

definition editComment :: "db \<Rightarrow> caller \<Rightarrow> nat \<Rightarrow> string \<Rightarrow> response \<times> db" where
  "editComment d c comment_id new_content =
     (case c of
        AnonymousUser \<Rightarrow> (not_authenticated, d)
      | AuthUser u \<Rightarrow>
          (case get_object_or_404 (comments_with_pk d comment_id) of
             Inl resp \<Rightarrow> (resp, d)
           | Inr cm \<Rightarrow>
               if comment_user cm \<noteq> u then (forbidden, d)
               else (\<lparr>status = 200, body = CommentData (cm\<lparr>content := new_content\<rparr>)\<rparr>,
                     d\<lparr>comments := save_row comment_pk (cm\<lparr>content := new_content\<rparr>)
                                     (comments d)\<rparr>)))"

definition deleteComment :: "db \<Rightarrow> caller \<Rightarrow> nat \<Rightarrow> response \<times> db" where
  "deleteComment d c comment_id =
     (case c of
        AnonymousUser \<Rightarrow> (not_authenticated, d)
      | AuthUser u \<Rightarrow>
          (case get_object_or_404 (comments_with_pk d comment_id) of
             Inl resp \<Rightarrow> (resp, d)
           | Inr cm \<Rightarrow>
               if comment_user cm \<noteq> u \<and> \<not> is_recipe_owner d u cm then (forbidden, d)
               else (\<lparr>status = 204, body = NoContent\<rparr>,
                     d\<lparr>comments := delete_row comment_pk cm (comments d)\<rparr>)))"

definition hideComment :: "db \<Rightarrow> caller \<Rightarrow> nat \<Rightarrow> response \<times> db" where
  "hideComment d c comment_id =
     (case c of
        AnonymousUser \<Rightarrow> (not_authenticated, d)
      | AuthUser u \<Rightarrow>
          (case get_object_or_404 (comments_with_pk d comment_id) of
             Inl resp \<Rightarrow> (resp, d)
           | Inr cm \<Rightarrow>
               if comment_user cm \<noteq> u \<and> \<not> is_recipe_owner d u cm then (forbidden, d)
               else (\<lparr>status = 200, body = CommentData (cm\<lparr>hidden := \<not> hidden cm\<rparr>)\<rparr>,
                     d\<lparr>comments := save_row comment_pk (cm\<lparr>hidden := \<not> hidden cm\<rparr>)
                                     (comments d)\<rparr>)))"

section \<open>Sample data\<close>

text \<open>A small store used to run the operations on concrete inputs.\<close>

definition alice :: user where
  "alice = \<lparr>user_pk = 1, email = ''alice@example.com'', username = ''alice'',
            password = ''hash:wonderland''\<rparr>"

definition bob :: user where
  "bob = \<lparr>user_pk = 2, email = ''bob@example.com'', username = ''bob'',
          password = ''hash:builder99''\<rparr>"

definition pasta :: recipe where
  "pasta = \<lparr>recipe_pk = 1, title = ''Pasta'', description = ''Quick dinner'',
            ingredients = [''2 cups flour'', ''3 eggs''], prep_time = 10, cook_time = 20,
            difficulty = ''Easy'', author = 1, recipe_created_at = 100\<rparr>"

definition demo_db :: db where
  "demo_db = \<lparr>users = [alice, bob], items = [pasta], ratings = [], likes = [], comments = []\<rparr>"




text \<open>The sample store after bob has liked the recipe.\<close>

definition liked_db :: db where
  "liked_db = demo_db\<lparr>likes := [\<lparr>like_pk = 1, like_user = 2, like_item = 1\<rparr>]\<rparr>"

text \<open>The sample store with three comments on the recipe, one of them hidden.\<close>

definition commented_db :: db where
  "commented_db = demo_db\<lparr>comments :=
     [\<lparr>comment_pk = 1, comment_user = 2, comment_item = 1, content = ''Great'', hidden = False,
       created_at = 110\<rparr>,
      \<lparr>comment_pk = 2, comment_user = 1, comment_item = 1, content = ''Thanks'', hidden = False,
       created_at = 120\<rparr>,
      \<lparr>comment_pk = 3, comment_user = 2, comment_item = 1, content = ''Spam'', hidden = True,
       created_at = 130\<rparr>]\<rparr>"

text \<open>
  A stand-in for the generic update, which sets the title, to run the detail views on the
  sample store.
\<close>

definition demo_super_update :: "db \<Rightarrow> recipe \<Rightarrow> string \<Rightarrow> response \<times> db" where
  "demo_super_update d instance new_title =
     (let obj = instance\<lparr>title := new_title\<rparr>;
          d' = d\<lparr>items := save_row recipe_pk obj (items d)\<rparr>
      in (\<lparr>status = 200, body = ItemData (ItemSerializer_data d' None obj)\<rparr>, d'))"

text \<open>A hasher and a token issuer to run \<open>login\<close> on the sample store.\<close>

definition demo_check_password :: "user \<Rightarrow> string \<Rightarrow> bool" where
  "demo_check_password u raw = (password u = ''hash:'' @ raw)"

definition demo_for_user :: "user \<Rightarrow> string" where
  "demo_for_user u = ''token-for-'' @ username u"

section \<open>Properties\<close>

subsection \<open>Query sets and rows\<close>

lemma filter_key_le_1:
  "distinct (map f xs) \<Longrightarrow> length (filter (\<lambda>x. f x = k) xs) \<le> 1"
proof (induction xs)
  case Nil
  then show ?case by simp
next
  case (Cons a xs)
  show ?case
  proof (cases "f a = k")
    case True
    with Cons.prems have "k \<notin> f ` set xs" by auto
    then have "filter (\<lambda>x. f x = k) xs = []" by (auto simp: filter_empty_conv)
    with True show ?thesis by simp
  next
    case False
    with Cons show ?thesis by simp
  qed
qed

lemma objects_get_cases:
  "length rows \<le> 1 \<Longrightarrow>
   (rows = [] \<and> objects_get rows = Inl DoesNotExist) \<or> (\<exists>r. rows = [r] \<and> objects_get rows = Inr r)"
  by (cases rows; cases "tl rows") (auto simp: objects_get_def)

lemma pk_less_next_pk: "x \<in> set rows \<Longrightarrow> pk x < next_pk pk rows"
  by (induction rows) (auto simp: next_pk_def)

lemma next_pk_fresh: "next_pk pk rows \<notin> set (map pk rows)"
  using pk_less_next_pk [of _ rows pk] by fastforce

lemma save_row_distinct:
  assumes "distinct (map pk rows)" and "old \<in> set rows" and "pk obj = pk old"
  shows "save_row pk obj rows = map (\<lambda>x. if x = old then obj else x) rows"
  unfolding save_row_def
proof (rule map_cong [OF refl])
  fix x assume "x \<in> set rows"
  with assms have "pk x = pk obj \<longleftrightarrow> x = old"
    by (auto simp: distinct_map dest: inj_onD)
  then show "(if pk x = pk obj then obj else x) = (if x = old then obj else x)" by simp
qed

lemma delete_row_distinct:
  assumes "distinct (map pk rows)" and "old \<in> set rows"
  shows "delete_row pk old rows = filter (\<lambda>x. x \<noteq> old) rows"
  unfolding delete_row_def
proof (rule filter_cong [OF refl])
  fix x assume "x \<in> set rows"
  with assms show "(pk x \<noteq> pk old) = (x \<noteq> old)"
    by (auto simp: distinct_map dest: inj_onD)
qed

lemma objects_get_Nil: "objects_get [] = Inl DoesNotExist"
  by (simp add: objects_get_def)

lemma objects_get_single: "objects_get [r] = Inr r"
  by (simp add: objects_get_def)

lemma get_object_or_404_found: "objects_get rows = Inr r \<Longrightarrow> get_object_or_404 rows = Inr r"
  by (simp add: get_object_or_404_def)

lemma get_object_or_404_missing: "get_object_or_404 [] = Inl not_found"
  by (simp add: get_object_or_404_def objects_get_Nil)

subsection \<open>Rounding to the nearest double\<close>











subsection \<open>Average rating\<close>









subsection \<open>Per-caller fields for an anonymous caller\<close>

text \<open>
  C10. For every store and every recipe, when the caller is anonymous the per-caller
  fields of the serialized recipe are constants: \<^verbatim>\<open>is_liked\<close> is false and
  \<^verbatim>\<open>user_rating\<close> is null, whatever Like and Rating rows are stored; the serializer
  methods return the same when the serializer has no request in its context.
\<close>

theorem anonymous_per_caller_fields:
  "get_is_liked d (Some \<lparr>req_user = AnonymousUser\<rparr>) r = False
   \<and> get_user_rating d (Some \<lparr>req_user = AnonymousUser\<rparr>) r = None
   \<and> get_is_liked d None r = False
   \<and> get_user_rating d None r = None
   \<and> data_is_liked (ItemSerializer_data d (Some \<lparr>req_user = AnonymousUser\<rparr>) r) = False
   \<and> data_user_rating (ItemSerializer_data d (Some \<lparr>req_user = AnonymousUser\<rparr>) r) = None"
  by (simp add: get_is_liked_def get_user_rating_def ItemSerializer_data_def)

subsection \<open>Rating twice is an upsert\<close>

lemma rating_rows_le_1: "rating_constraints d \<Longrightarrow> length (rating_rows d u i) \<le> 1"
  using filter_key_le_1 [of "\<lambda>r. (rating_user r, rating_item r)" "ratings d" "(u, i)"]
  by (simp add: rating_constraints_def rating_rows_def)

lemma rating_create_ok:
  fixes v :: int
  assumes c: "rating_constraints d" and e: "rating_rows d u i = []"
  defines "obj \<equiv> \<lparr>rating_pk = next_pk rating_pk (ratings d), rating_user = u, rating_item = i, score = v\<rparr>"
  shows "rating_constraints (d\<lparr>ratings := ratings d @ [obj]\<rparr>)"
    and "rating_rows (d\<lparr>ratings := ratings d @ [obj]\<rparr>) u i = [obj]"
proof -
  have "(u, i) \<notin> (\<lambda>r. (rating_user r, rating_item r)) ` set (ratings d)"
    using e by (auto simp: rating_rows_def filter_empty_conv)
  moreover have "next_pk rating_pk (ratings d) \<notin> rating_pk ` set (ratings d)"
    using next_pk_fresh [of rating_pk "ratings d"] by simp
  ultimately show "rating_constraints (d\<lparr>ratings := ratings d @ [obj]\<rparr>)"
    using c by (simp add: rating_constraints_def obj_def)
  show "rating_rows (d\<lparr>ratings := ratings d @ [obj]\<rparr>) u i = [obj]"
    using e by (simp add: rating_rows_def obj_def)
qed

lemma rating_save_ok:
  fixes v :: int
  assumes c: "rating_constraints d" and e: "rating_rows d u i = [old]"
  defines "d' \<equiv> d\<lparr>ratings := save_row rating_pk (old\<lparr>score := v\<rparr>) (ratings d)\<rparr>"
  shows "rating_constraints d'" and "rating_rows d' u i = [old\<lparr>score := v\<rparr>]"
proof -
  let ?g = "\<lambda>x. if x = old then old\<lparr>score := v\<rparr> else x"
  have "old \<in> set (rating_rows d u i)"
    using e by simp
  then have mem: "old \<in> set (ratings d)" and m: "rating_user old = u \<and> rating_item old = i"
    by (simp_all add: rating_rows_def)
  have dist: "distinct (map rating_pk (ratings d))"
    using c by (simp add: rating_constraints_def)
  have sv: "save_row rating_pk (old\<lparr>score := v\<rparr>) (ratings d) = map ?g (ratings d)"
    using save_row_distinct [OF dist mem, of "old\<lparr>score := v\<rparr>"] by simp
  have p1: "map (rating_pk \<circ> ?g) (ratings d) = map rating_pk (ratings d)"
    by (rule map_cong [OF refl]) simp
  have p2: "map ((\<lambda>r. (rating_user r, rating_item r)) \<circ> ?g) (ratings d)
            = map (\<lambda>r. (rating_user r, rating_item r)) (ratings d)"
    by (rule map_cong [OF refl]) simp
  show "rating_constraints d'"
    using c by (simp add: rating_constraints_def d'_def sv p1 p2)
  have pg: "(\<lambda>r. rating_user r = u \<and> rating_item r = i) \<circ> ?g
            = (\<lambda>r. rating_user r = u \<and> rating_item r = i)"
    using m by (auto simp: fun_eq_iff)
  have "filter (\<lambda>r. rating_user r = u \<and> rating_item r = i) (map ?g (ratings d))
        = map ?g (filter (\<lambda>r. rating_user r = u \<and> rating_item r = i) (ratings d))"
    by (simp only: filter_map pg)
  then show "rating_rows d' u i = [old\<lparr>score := v\<rparr>]"
    using e by (simp add: rating_rows_def d'_def sv)
qed

lemma update_or_create_rating_upsert:
  assumes c: "rating_constraints d"
  shows "\<exists>d'. update_or_create_rating d u i v = Inr d' \<and> rating_constraints d' \<and>
           items d' = items d \<and> (\<exists>row. rating_rows d' u i = [row] \<and> score row = v)"
proof -
  from objects_get_cases [OF rating_rows_le_1 [OF c, of u i]]
  show ?thesis
  proof (elim disjE conjE exE)
    assume e: "rating_rows d u i = []" and g: "objects_get (rating_rows d u i) = Inl DoesNotExist"
    from rating_create_ok [OF c e, of v] g show ?thesis
      by (simp add: update_or_create_rating_def)
  next
    fix old assume e: "rating_rows d u i = [old]" and g: "objects_get (rating_rows d u i) = Inr old"
    from rating_save_ok [OF c e, of v] g show ?thesis
      by (simp add: update_or_create_rating_def)
  qed
qed

lemma rate_recipe_effect:
  assumes "objects_get (items_with_pk d pk) = Inr r"
  shows "snd (rate_recipe d u pk v) =
           (case update_or_create_rating d u pk v of Inr d' \<Rightarrow> d' | Inl e \<Rightarrow> d)"
    and "status (fst (rate_recipe d u pk v)) =
           (case update_or_create_rating d u pk v of Inr d' \<Rightarrow> 200 | Inl e \<Rightarrow> 500)"
  using assms
  by (auto simp: rate_recipe_def get_object_or_404_def update_or_create_rating_def
      get_or_create_rating_def server_error_def Let_def split: sum.splits db_error.splits)

lemma rate_item_effect:
  assumes "objects_get (items_with_pk d pk) = Inr r"
  shows "snd (rate_item d (AuthUser u) pk data) =
           (case RatingSerializer_validate data of
              None \<Rightarrow> d
            | Some v \<Rightarrow> (case update_or_create_rating d u pk v of Inr d' \<Rightarrow> d' | Inl e \<Rightarrow> d))"
  using assms by (simp add: rate_item_def split: option.splits sum.splits)

lemma rate_item_state:
  assumes c: "rating_constraints d" and x: "objects_get (items_with_pk d pk) = Inr r"
  shows "rating_constraints (snd (rate_item d (AuthUser u) pk data)) \<and>
         items (snd (rate_item d (AuthUser u) pk data)) = items d \<and>
         (\<forall>v. RatingSerializer_validate data = Some v \<longrightarrow>
            (\<exists>row. rating_rows (snd (rate_item d (AuthUser u) pk data)) u pk = [row] \<and> score row = v))"
proof (cases "RatingSerializer_validate data")
  case None
  with c show ?thesis by (simp add: rate_item_effect [OF x])
next
  case (Some v)
  from update_or_create_rating_upsert [OF c, of u pk v] Some show ?thesis
    by (auto simp: rate_item_effect [OF x])
qed

lemma rate_recipe_state:
  assumes c: "rating_constraints d" and x: "objects_get (items_with_pk d pk) = Inr r"
  shows "rating_constraints (snd (rate_recipe d u pk v)) \<and>
         items (snd (rate_recipe d u pk v)) = items d \<and>
         (\<exists>row. rating_rows (snd (rate_recipe d u pk v)) u pk = [row] \<and> score row = v)"
proof -
  from update_or_create_rating_upsert [OF c, of u pk v]
  obtain d' where u: "update_or_create_rating d u pk v = Inr d'" and c': "rating_constraints d'"
    and i': "items d' = items d" and r': "\<exists>row. rating_rows d' u pk = [row] \<and> score row = v"
    by blast
  have "snd (rate_recipe d u pk v) = d'"
    by (simp add: rate_recipe_effect(1) [OF x] u)
  with c' i' r' show ?thesis by simp
qed

text \<open>
  C2. For every store that satisfies the database constraints of the Rating table, every
  user u, every existing recipe and every two scores s1 then s2 (s2 among the accepted
  scores 1 to 5), rating the recipe with s1 and then with s2 leaves exactly one Rating row
  for the pair (u, recipe), and its score is s2. This holds for \<^verbatim>\<open>rate_item\<close>
  (\<^verbatim>\<open>update_or_create\<close>) and for \<^verbatim>\<open>rate_recipe\<close> (\<^verbatim>\<open>get_or_create\<close> then save).
\<close>

theorem rate_twice_upsert:
  assumes c: "rating_constraints d"
    and x: "objects_get (items_with_pk d pk) = Inr r"
    and s2: "s2 \<in> {1..5}"
  shows "(\<exists>row. rating_rows (snd (rate_item (snd (rate_item d (AuthUser u) pk (Some s1)))
                                 (AuthUser u) pk (Some s2))) u pk = [row] \<and> score row = s2)
       \<and> (\<exists>row. rating_rows (snd (rate_recipe (snd (rate_recipe d u pk s1)) u pk s2)) u pk = [row]
                 \<and> score row = s2)"
proof
  let ?d1 = "snd (rate_item d (AuthUser u) pk (Some s1))"
  from rate_item_state [OF c x, of u "Some s1"]
  have c1: "rating_constraints ?d1" and i1: "items ?d1 = items d" by blast+
  from x i1 have x1: "objects_get (items_with_pk ?d1 pk) = Inr r"
    by (simp add: items_with_pk_def)
  have v: "RatingSerializer_validate (Some s2) = Some s2"
    using s2 by (simp add: RatingSerializer_validate_def)
  from rate_item_state [OF c1 x1, of u "Some s2"] v
  show "\<exists>row. rating_rows (snd (rate_item ?d1 (AuthUser u) pk (Some s2))) u pk = [row]
              \<and> score row = s2"
    by blast
next
  let ?d1 = "snd (rate_recipe d u pk s1)"
  from rate_recipe_state [OF c x, of u s1]
  have c1: "rating_constraints ?d1" and i1: "items ?d1 = items d" by blast+
  from x i1 have x1: "objects_get (items_with_pk ?d1 pk) = Inr r"
    by (simp add: items_with_pk_def)
  from rate_recipe_state [OF c1 x1, of u s2]
  show "\<exists>row. rating_rows (snd (rate_recipe ?d1 u pk s2)) u pk = [row] \<and> score row = s2"
    by blast
qed

theorem rate_twice_upsert_witness:
  "rating_constraints demo_db \<and> objects_get (items_with_pk demo_db 1) = Inr pasta \<and>
   (5::int) \<in> {1..5} \<and>
   (\<exists>row. rating_rows (snd (rate_item (snd (rate_item demo_db (AuthUser 2) 1 (Some 4)))
                               (AuthUser 2) 1 (Some 5))) 2 1 = [row] \<and> score row = 5) \<and>
   (\<exists>row. rating_rows (snd (rate_recipe (snd (rate_recipe demo_db 2 1 4)) 2 1 5)) 2 1 = [row]
          \<and> score row = 5) \<and>
   rate_item (snd (rate_item demo_db (AuthUser 2) 1 (Some 4))) (AuthUser 2) 1 (Some 5) =
     (\<lparr>status = 201,
       body = ItemData \<lparr>data_item = pasta, data_average_rating = 5, data_likes_count = 0,
                        data_is_liked = False, data_user_rating = Some 5\<rparr>\<rparr>,
      demo_db\<lparr>ratings := [\<lparr>rating_pk = 1, rating_user = 2, rating_item = 1, score = 5\<rparr>]\<rparr>) \<and>
   rate_recipe (snd (rate_recipe demo_db 2 1 4)) 2 1 5 =
     (\<lparr>status = 200, body = Average 5\<rparr>,
      demo_db\<lparr>ratings := [\<lparr>rating_pk = 1, rating_user = 2, rating_item = 1, score = 5\<rparr>]\<rparr>)"
proof -
  have c: "rating_constraints demo_db"
    by (simp add: rating_constraints_def demo_db_def)
  have x: "objects_get (items_with_pk demo_db 1) = Inr pasta"
    by (simp add: objects_get_def items_with_pk_def demo_db_def pasta_def)
  have s: "(5::int) \<in> {1..5}" by simp
  have v: "double_of 5 = 5"
    by code_simp
  have i: "rate_item (snd (rate_item demo_db (AuthUser 2) 1 (Some 4))) (AuthUser 2) 1 (Some 5) =
     (\<lparr>status = 201,
       body = ItemData \<lparr>data_item = pasta, data_average_rating = 5, data_likes_count = 0,
                        data_is_liked = False, data_user_rating = Some 5\<rparr>\<rparr>,
      demo_db\<lparr>ratings := [\<lparr>rating_pk = 1, rating_user = 2, rating_item = 1, score = 5\<rparr>]\<rparr>)"
    by (simp add: rate_item_def RatingSerializer_validate_def update_or_create_rating_def
        objects_get_def items_with_pk_def rating_rows_def next_pk_def save_row_def
        ItemSerializer_data_def average_rating_def item_ratings_def py_sum_def likes_count_def
        get_is_liked_def get_user_rating_def first_by_def demo_db_def pasta_def v)
  have r: "rate_recipe (snd (rate_recipe demo_db 2 1 4)) 2 1 5 =
     (\<lparr>status = 200, body = Average 5\<rparr>,
      demo_db\<lparr>ratings := [\<lparr>rating_pk = 1, rating_user = 2, rating_item = 1, score = 5\<rparr>]\<rparr>)"
    by (simp add: rate_recipe_def get_object_or_404_def get_or_create_rating_def
        objects_get_def items_with_pk_def rating_rows_def next_pk_def save_row_def
        average_rating_agg_def Avg_def or_0_def item_ratings_def Let_def demo_db_def pasta_def v)
  from rate_twice_upsert [OF c x s, of 2 4] c x s i r show ?thesis by blast
qed

subsection \<open>Liking is a toggle\<close>

lemma like_rows_le_1: "like_constraints d \<Longrightarrow> length (like_rows d u i) \<le> 1"
  using filter_key_le_1 [of "\<lambda>l. (like_user l, like_item l)" "likes d" "(u, i)"]
  by (simp add: like_constraints_def like_rows_def)

lemma like_create_ok:
  assumes c: "like_constraints d" and e: "like_rows d u i = []"
  defines "obj \<equiv> \<lparr>like_pk = next_pk like_pk (likes d), like_user = u, like_item = i\<rparr>"
  shows "like_constraints (d\<lparr>likes := likes d @ [obj]\<rparr>)"
    and "like_rows (d\<lparr>likes := likes d @ [obj]\<rparr>) u i = [obj]"
proof -
  have "(u, i) \<notin> (\<lambda>l. (like_user l, like_item l)) ` set (likes d)"
    using e by (auto simp: like_rows_def filter_empty_conv)
  moreover have "next_pk like_pk (likes d) \<notin> like_pk ` set (likes d)"
    using next_pk_fresh [of like_pk "likes d"] by simp
  ultimately show "like_constraints (d\<lparr>likes := likes d @ [obj]\<rparr>)"
    using c by (simp add: like_constraints_def obj_def)
  show "like_rows (d\<lparr>likes := likes d @ [obj]\<rparr>) u i = [obj]"
    using e by (simp add: like_rows_def obj_def)
qed

lemma like_delete_ok:
  assumes c: "like_constraints d" and e: "like_rows d u i = [old]"
  defines "d' \<equiv> d\<lparr>likes := delete_row like_pk old (likes d)\<rparr>"
  shows "like_constraints d'" and "like_rows d' u i = []"
proof -
  have "old \<in> set (like_rows d u i)"
    using e by simp
  then have mem: "old \<in> set (likes d)"
    by (simp add: like_rows_def)
  have dist: "distinct (map like_pk (likes d))"
    using c by (simp add: like_constraints_def)
  have dl: "delete_row like_pk old (likes d) = filter (\<lambda>x. x \<noteq> old) (likes d)"
    by (rule delete_row_distinct [OF dist mem])
  show "like_constraints d'"
    using c by (simp add: like_constraints_def d'_def dl distinct_map_filter)
  have "filter (\<lambda>l. like_user l = u \<and> like_item l = i) (filter (\<lambda>x. x \<noteq> old) (likes d))
        = filter (\<lambda>x. x \<noteq> old) (filter (\<lambda>l. like_user l = u \<and> like_item l = i) (likes d))"
    by (simp add: conj_commute)
  also have "\<dots> = []"
    using e by (simp add: like_rows_def)
  finally show "like_rows d' u i = []"
    by (simp add: like_rows_def d'_def dl)
qed

lemma like_recipe_created:
  assumes x: "objects_get (items_with_pk d pk) = Inr r" and e: "like_rows d u pk = []"
  shows "like_recipe d (AuthUser u) pk =
           (\<lparr>status = 200, body = Liked True\<rparr>,
            d\<lparr>likes := likes d @ [\<lparr>like_pk = next_pk like_pk (likes d), like_user = u, like_item = pk\<rparr>]\<rparr>)"
  using x e
  by (simp add: like_recipe_def get_object_or_404_def get_or_create_like_def objects_get_Nil
      objects_get_single Let_def)

lemma like_recipe_deleted:
  assumes x: "objects_get (items_with_pk d pk) = Inr r" and e: "like_rows d u pk = [old]"
  shows "like_recipe d (AuthUser u) pk =
           (\<lparr>status = 200, body = Liked False\<rparr>, d\<lparr>likes := delete_row like_pk old (likes d)\<rparr>)"
  using x e
  by (simp add: like_recipe_def get_object_or_404_def get_or_create_like_def objects_get_Nil
      objects_get_single Let_def)

lemma unlike_absent:
  assumes x: "objects_get (items_with_pk d pk) = Inr r" and e: "like_rows d u pk = []"
  shows "unlikeRecipe d (AuthUser u) pk = (\<lparr>status = 204, body = NoContent\<rparr>, d)"
proof -
  have "filter (\<lambda>l. \<not> (like_user l = u \<and> like_item l = pk)) (likes d) = likes d"
    using e by (auto simp: like_rows_def filter_empty_conv filter_id_conv)
  with x show ?thesis
    by (simp add: unlikeRecipe_def get_object_or_404_def)
qed

text \<open>
  C3, as the code has it. For every store that satisfies the database constraints of the
  Like table, every authenticated user u and every existing recipe, \<^verbatim>\<open>like_recipe\<close>
  never answers an error and toggles the Like row of (u, recipe): when there is none it
  creates exactly one and answers \<^verbatim>\<open>liked: True\<close>; when there is one it deletes it and
  answers \<^verbatim>\<open>liked: False\<close>; the constraints are kept, so that there is never more than
  one row. Unliking when no Like row exists changes nothing.
\<close>

theorem like_recipe_toggles:
  assumes c: "like_constraints d" and x: "objects_get (items_with_pk d pk) = Inr r"
  shows "(like_rows d u pk = [] \<longrightarrow>
            fst (like_recipe d (AuthUser u) pk) = \<lparr>status = 200, body = Liked True\<rparr> \<and>
            length (like_rows (snd (like_recipe d (AuthUser u) pk)) u pk) = 1 \<and>
            unlikeRecipe d (AuthUser u) pk = (\<lparr>status = 204, body = NoContent\<rparr>, d)) \<and>
         (like_rows d u pk \<noteq> [] \<longrightarrow>
            fst (like_recipe d (AuthUser u) pk) = \<lparr>status = 200, body = Liked False\<rparr> \<and>
            like_rows (snd (like_recipe d (AuthUser u) pk)) u pk = []) \<and>
         like_constraints (snd (like_recipe d (AuthUser u) pk))"
proof -
  from objects_get_cases [OF like_rows_le_1 [OF c, of u pk]]
  show ?thesis
  proof (elim disjE conjE exE)
    assume e: "like_rows d u pk = []"
    from like_create_ok [OF c e] show ?thesis
      by (simp add: like_recipe_created [OF x e] unlike_absent [OF x e] e)
  next
    fix old assume e: "like_rows d u pk = [old]"
    from like_delete_ok [OF c e] show ?thesis
      by (simp add: like_recipe_deleted [OF x e] e)
  qed
qed

theorem like_recipe_toggles_witness:
  "like_constraints demo_db \<and> objects_get (items_with_pk demo_db 1) = Inr pasta \<and>
   like_rows demo_db 2 1 = [] \<and>
   fst (like_recipe demo_db (AuthUser 2) 1) = \<lparr>status = 200, body = Liked True\<rparr> \<and>
   length (like_rows (snd (like_recipe demo_db (AuthUser 2) 1)) 2 1) = 1 \<and>
   unlikeRecipe demo_db (AuthUser 2) 1 = (\<lparr>status = 204, body = NoContent\<rparr>, demo_db) \<and>
   like_constraints liked_db \<and> objects_get (items_with_pk liked_db 1) = Inr pasta \<and>
   like_rows liked_db 2 1 \<noteq> [] \<and>
   fst (like_recipe liked_db (AuthUser 2) 1) = \<lparr>status = 200, body = Liked False\<rparr> \<and>
   like_rows (snd (like_recipe liked_db (AuthUser 2) 1)) 2 1 = []"
proof -
  have c: "like_constraints demo_db" and c': "like_constraints liked_db"
    by (simp_all add: like_constraints_def liked_db_def demo_db_def)
  have x: "objects_get (items_with_pk demo_db 1) = Inr pasta"
    and x': "objects_get (items_with_pk liked_db 1) = Inr pasta"
    by (simp_all add: objects_get_def items_with_pk_def liked_db_def demo_db_def pasta_def)
  have e: "like_rows demo_db 2 1 = []" and e': "like_rows liked_db 2 1 \<noteq> []"
    by (simp_all add: like_rows_def liked_db_def demo_db_def)
  from like_recipe_toggles [OF c x, of 2] like_recipe_toggles [OF c' x', of 2] c c' x x' e e'
  show ?thesis by blast
qed

text \<open>
  The claim as stated fails: bob has liked the recipe, he calls \<^verbatim>\<open>like_recipe\<close> again,
  and the call removes his Like row, leaving none.
\<close>

theorem like_recipe_not_idempotent:
  "like_rows liked_db 2 1 = [\<lparr>like_pk = 1, like_user = 2, like_item = 1\<rparr>] \<and>
   like_recipe liked_db (AuthUser 2) 1 = (\<lparr>status = 200, body = Liked False\<rparr>, demo_db) \<and>
   like_rows demo_db 2 1 = []"
  by (simp add: like_recipe_def get_object_or_404_def get_or_create_like_def objects_get_def
      like_rows_def items_with_pk_def delete_row_def liked_db_def demo_db_def pasta_def)

subsection \<open>Who may update or delete a recipe\<close>

text \<open>
  C4, as the code has it. For every store, every caller c and every existing recipe, the
  update and delete handlers reach the generic update or deletion only when c is the
  recipe's author. \<^verbatim>\<open>ItemDetailView\<close> answers 403 to every other caller, the anonymous
  caller included, and leaves the store unchanged. \<^verbatim>\<open>RecipeViewSet\<close> answers 403 to every
  other authenticated caller and 401 to the anonymous caller, and leaves the store
  unchanged.
\<close>

theorem only_owner_updates_or_deletes:
  assumes x: "objects_get (items_with_pk d pk) = Inr r"
  shows "(c = AuthUser (author r) \<longrightarrow>
            ItemDetailView_update upd d c pk data = upd d r data \<and>
            ItemDetailView_destroy d c pk = super_destroy d r \<and>
            RecipeViewSet_update upd d c pk data = upd d r data \<and>
            RecipeViewSet_destroy d c pk = super_destroy d r) \<and>
         (c \<noteq> AuthUser (author r) \<longrightarrow>
            status (fst (ItemDetailView_update upd d c pk data)) = 403 \<and>
            snd (ItemDetailView_update upd d c pk data) = d \<and>
            status (fst (ItemDetailView_destroy d c pk)) = 403 \<and>
            snd (ItemDetailView_destroy d c pk) = d) \<and>
         (c \<noteq> AuthUser (author r) \<and> is_authenticated c \<longrightarrow>
            status (fst (RecipeViewSet_update upd d c pk data)) = 403 \<and>
            snd (RecipeViewSet_update upd d c pk data) = d \<and>
            status (fst (RecipeViewSet_destroy d c pk)) = 403 \<and>
            snd (RecipeViewSet_destroy d c pk) = d) \<and>
         (c = AnonymousUser \<longrightarrow>
            status (fst (RecipeViewSet_update upd d c pk data)) = 401 \<and>
            snd (RecipeViewSet_update upd d c pk data) = d \<and>
            status (fst (RecipeViewSet_destroy d c pk)) = 401 \<and>
            snd (RecipeViewSet_destroy d c pk) = d)"
proof -
  note g = get_object_or_404_found [OF x]
  have safe: "PUT \<notin> set SAFE_METHODS" "DELETE \<notin> set SAFE_METHODS"
    by (simp_all add: SAFE_METHODS_def)
  show ?thesis
  proof (cases c)
    case AnonymousUser
    then show ?thesis
      by (simp add: ItemDetailView_update_def ItemDetailView_destroy_def RecipeViewSet_update_def
          RecipeViewSet_destroy_def IsAuthenticatedOrReadOnly_has_permission_def safe g
          permission_denied_def not_authenticated_def)
  next
    case (AuthUser u)
    then show ?thesis
      by (simp add: ItemDetailView_update_def ItemDetailView_destroy_def RecipeViewSet_update_def
          RecipeViewSet_destroy_def RecipeViewSet_get_object_def
          IsAuthenticatedOrReadOnly_has_permission_def
          IsOwnerOrReadOnly_has_object_permission_def safe g permission_denied_def forbidden_def)
  qed
qed

theorem only_owner_updates_or_deletes_witness:
  "objects_get (items_with_pk demo_db 1) = Inr pasta \<and>
   ItemDetailView_update demo_super_update demo_db (AuthUser 1) 1 ''Penne''
     = demo_super_update demo_db pasta ''Penne'' \<and>
   ItemDetailView_destroy demo_db (AuthUser 1) 1 = super_destroy demo_db pasta \<and>
   RecipeViewSet_destroy demo_db (AuthUser 1) 1 = super_destroy demo_db pasta \<and>
   AuthUser 2 \<noteq> AuthUser (author pasta) \<and> is_authenticated (AuthUser 2) \<and>
   status (fst (ItemDetailView_update demo_super_update demo_db (AuthUser 2) 1 ''Penne'')) = 403 \<and>
   status (fst (ItemDetailView_destroy demo_db (AuthUser 2) 1)) = 403 \<and>
   status (fst (RecipeViewSet_destroy demo_db (AuthUser 2) 1)) = 403 \<and>
   AnonymousUser \<noteq> AuthUser (author pasta) \<and>
   status (fst (ItemDetailView_destroy demo_db AnonymousUser 1)) = 403 \<and>
   status (fst (RecipeViewSet_destroy demo_db AnonymousUser 1)) = 401"
proof -
  have x: "objects_get (items_with_pk demo_db 1) = Inr pasta"
    by (simp add: objects_get_def items_with_pk_def demo_db_def pasta_def)
  have a: "author pasta = 1"
    by (simp add: pasta_def)
  have n: "AuthUser 2 \<noteq> AuthUser (author pasta)" "AnonymousUser \<noteq> AuthUser (author pasta)"
    "is_authenticated (AuthUser 2)" "AuthUser 1 = AuthUser (author pasta)"
    by (simp_all add: a)
  from only_owner_updates_or_deletes
         [OF x, where c = "AuthUser 1" and upd = demo_super_update and data = "''Penne''"]
    only_owner_updates_or_deletes
         [OF x, where c = "AuthUser 2" and upd = demo_super_update and data = "''Penne''"]
    only_owner_updates_or_deletes
         [OF x, where c = AnonymousUser and upd = demo_super_update and data = "''Penne''"]
    x n
  show ?thesis by blast
qed

text \<open>
  The claim as stated fails: the anonymous caller who deletes an existing recipe through
  \<^verbatim>\<open>ItemDetailView\<close> is answered 403, not 401.
\<close>

theorem anonymous_destroy_is_403:
  "objects_get (items_with_pk demo_db 1) = Inr pasta \<and>
   ItemDetailView_destroy demo_db AnonymousUser 1 =
     (\<lparr>status = 403, body = Error ''You do not have permission to delete this item''\<rparr>, demo_db)"
  by (simp add: ItemDetailView_destroy_def get_object_or_404_def objects_get_def items_with_pk_def
      demo_db_def pasta_def)

subsection \<open>Login\<close>

text \<open>
  C5, as the code has it. For every non-empty email and password, \<^verbatim>\<open>login\<close> answers
  400 with the error \<^verbatim>\<open>Invalid credentials\<close> when no user has the email and when the
  password does not match the stored hash, and answers 200 with the user and a token when
  it matches; no input makes it answer 401.
\<close>

theorem login_bad_credentials_400:
  assumes e: "e \<noteq> []" and p: "p \<noteq> []"
  shows "(users_with_email d e = [] \<longrightarrow>
            login chk tok d (Some e) (Some p) = \<lparr>status = 400, body = Error ''Invalid credentials''\<rparr>) \<and>
         (\<forall>u. users_with_email d e = [u] \<and> \<not> chk u p \<longrightarrow>
            login chk tok d (Some e) (Some p) = \<lparr>status = 400, body = Error ''Invalid credentials''\<rparr>) \<and>
         (\<forall>u. users_with_email d e = [u] \<and> chk u p \<longrightarrow>
            login chk tok d (Some e) (Some p) = \<lparr>status = 200, body = UserToken u (tok u)\<rparr>) \<and>
         status (login chk tok d email_in password_in) \<noteq> 401"
proof -
  have "status (login chk tok d email_in password_in) \<in> {200, 400, 500}"
    by (simp add: login_def server_error_def split: option.splits sum.splits db_error.splits)
  then have "status (login chk tok d email_in password_in) \<noteq> 401"
    by auto
  then show ?thesis
    using e p by (simp add: login_def truthy_def objects_get_Nil objects_get_single)
qed

theorem login_bad_credentials_400_witness:
  "''alice@example.com'' \<noteq> [] \<and> ''builder99'' \<noteq> [] \<and> ''wonderland'' \<noteq> [] \<and>
   users_with_email demo_db ''carol@example.com'' = [] \<and>
   login demo_check_password demo_for_user demo_db (Some ''carol@example.com'') (Some ''wonderland'')
     = \<lparr>status = 400, body = Error ''Invalid credentials''\<rparr> \<and>
   users_with_email demo_db ''alice@example.com'' = [alice] \<and>
   \<not> demo_check_password alice ''builder99'' \<and>
   login demo_check_password demo_for_user demo_db (Some ''alice@example.com'') (Some ''builder99'')
     = \<lparr>status = 400, body = Error ''Invalid credentials''\<rparr> \<and>
   demo_check_password alice ''wonderland'' \<and>
   login demo_check_password demo_for_user demo_db (Some ''alice@example.com'') (Some ''wonderland'')
     = \<lparr>status = 200, body = UserToken alice (demo_for_user alice)\<rparr>"
proof -
  have n: "''alice@example.com'' \<noteq> []" "''carol@example.com'' \<noteq> []" "''builder99'' \<noteq> []"
    "''wonderland'' \<noteq> []"
    by simp_all
  have f: "users_with_email demo_db ''carol@example.com'' = []"
    "users_with_email demo_db ''alice@example.com'' = [alice]"
    by (simp_all add: users_with_email_def demo_db_def alice_def bob_def)
  have c: "\<not> demo_check_password alice ''builder99''" "demo_check_password alice ''wonderland''"
    by (simp_all add: demo_check_password_def alice_def)
  from login_bad_credentials_400
         [OF n(2) n(4), where d = demo_db and chk = demo_check_password and tok = demo_for_user]
    login_bad_credentials_400
         [OF n(1) n(3), where d = demo_db and chk = demo_check_password and tok = demo_for_user]
    login_bad_credentials_400
         [OF n(1) n(4), where d = demo_db and chk = demo_check_password and tok = demo_for_user]
    n f c
  show ?thesis by blast
qed

text \<open>
  The claim as stated fails: a login with an unknown email is answered 400, not 401.
\<close>

theorem login_unknown_email_is_400:
  "users_with_email demo_db ''carol@example.com'' = [] \<and>
   login demo_check_password demo_for_user demo_db (Some ''carol@example.com'') (Some ''secret123'')
     = \<lparr>status = 400, body = Error ''Invalid credentials''\<rparr>"
  by (simp add: login_def truthy_def objects_get_def users_with_email_def demo_db_def alice_def
      bob_def)

subsection \<open>Existence is checked before ownership\<close>

text \<open>
  C6, as the code has it. For every store: when no recipe is stored under the key, every
  mutating operation on the recipe, its ratings and its likes answers not-found (404) to
  every authenticated caller and leaves the store unchanged, never 403; the handlers of
  \<^verbatim>\<open>ItemDetailView\<close> answer 404 to the anonymous caller as well, while the operations
  that require authentication (\<^verbatim>\<open>RecipeViewSet\<close>, \<^verbatim>\<open>rate_item\<close>, \<^verbatim>\<open>like_recipe\<close>)
  answer 401 to the anonymous caller before any lookup. When no comment is stored under
  the key, editing, deleting and hiding it answer not-found to every authenticated caller
  and leave the store unchanged.
\<close>

theorem missing_target_is_not_found:
  "(items_with_pk d pk = [] \<longrightarrow>
      ItemDetailView_update upd d c pk data = (not_found, d) \<and>
      ItemDetailView_destroy d c pk = (not_found, d) \<and>
      RecipeViewSet_update upd d (AuthUser u) pk data = (not_found, d) \<and>
      RecipeViewSet_destroy d (AuthUser u) pk = (not_found, d) \<and>
      rate_item d (AuthUser u) pk rdata = (\<lparr>status = 404, body = Error ''Item not found''\<rparr>, d) \<and>
      rate_recipe d u pk s = (not_found, d) \<and>
      like_recipe d (AuthUser u) pk = (not_found, d) \<and>
      unlikeRecipe d (AuthUser u) pk = (not_found, d) \<and>
      RecipeViewSet_update upd d AnonymousUser pk data = (not_authenticated, d) \<and>
      RecipeViewSet_destroy d AnonymousUser pk = (not_authenticated, d) \<and>
      rate_item d AnonymousUser pk rdata = (not_authenticated, d) \<and>
      like_recipe d AnonymousUser pk = (not_authenticated, d)) \<and>
   (comments_with_pk d k = [] \<longrightarrow>
      editComment d (AuthUser u) k w = (not_found, d) \<and>
      deleteComment d (AuthUser u) k = (not_found, d) \<and>
      hideComment d (AuthUser u) k = (not_found, d))"
proof (intro conjI impI)
  assume m: "items_with_pk d pk = []"
  have safe: "PUT \<notin> set SAFE_METHODS" "DELETE \<notin> set SAFE_METHODS"
    by (simp_all add: SAFE_METHODS_def)
  note g = get_object_or_404_missing objects_get_Nil
  show "ItemDetailView_update upd d c pk data = (not_found, d)"
    and "ItemDetailView_destroy d c pk = (not_found, d)"
    by (simp_all add: ItemDetailView_update_def ItemDetailView_destroy_def m g)
  show "RecipeViewSet_update upd d (AuthUser u) pk data = (not_found, d)"
    and "RecipeViewSet_destroy d (AuthUser u) pk = (not_found, d)"
    by (simp_all add: RecipeViewSet_update_def RecipeViewSet_destroy_def
        RecipeViewSet_get_object_def IsAuthenticatedOrReadOnly_has_permission_def safe m g)
  show "rate_item d (AuthUser u) pk rdata = (\<lparr>status = 404, body = Error ''Item not found''\<rparr>, d)"
    by (simp add: rate_item_def m g)
  show "rate_recipe d u pk s = (not_found, d)"
    by (simp add: rate_recipe_def m g)
  show "like_recipe d (AuthUser u) pk = (not_found, d)"
    and "unlikeRecipe d (AuthUser u) pk = (not_found, d)"
    by (simp_all add: like_recipe_def unlikeRecipe_def m g)
  show "RecipeViewSet_update upd d AnonymousUser pk data = (not_authenticated, d)"
    and "RecipeViewSet_destroy d AnonymousUser pk = (not_authenticated, d)"
    by (simp_all add: RecipeViewSet_update_def RecipeViewSet_destroy_def
        IsAuthenticatedOrReadOnly_has_permission_def safe permission_denied_def)
  show "rate_item d AnonymousUser pk rdata = (not_authenticated, d)"
    and "like_recipe d AnonymousUser pk = (not_authenticated, d)"
    by (simp_all add: rate_item_def like_recipe_def)
next
  assume n: "comments_with_pk d k = []"
  note g = get_object_or_404_missing
  show "editComment d (AuthUser u) k w = (not_found, d)"
    and "deleteComment d (AuthUser u) k = (not_found, d)"
    and "hideComment d (AuthUser u) k = (not_found, d)"
    by (simp_all add: editComment_def deleteComment_def hideComment_def n g)
qed

theorem missing_target_is_not_found_witness:
  "items_with_pk demo_db 7 = [] \<and> comments_with_pk demo_db 9 = [] \<and>
   ItemDetailView_update demo_super_update demo_db (AuthUser 2) 7 ''Penne'' = (not_found, demo_db) \<and>
   ItemDetailView_destroy demo_db AnonymousUser 7 = (not_found, demo_db) \<and>
   RecipeViewSet_destroy demo_db (AuthUser 2) 7 = (not_found, demo_db) \<and>
   rate_item demo_db (AuthUser 2) 7 (Some 5) =
     (\<lparr>status = 404, body = Error ''Item not found''\<rparr>, demo_db) \<and>
   rate_recipe demo_db 2 7 5 = (not_found, demo_db) \<and>
   like_recipe demo_db (AuthUser 2) 7 = (not_found, demo_db) \<and>
   RecipeViewSet_destroy demo_db AnonymousUser 7 = (not_authenticated, demo_db) \<and>
   editComment demo_db (AuthUser 2) 9 ''Edited'' = (not_found, demo_db) \<and>
   deleteComment demo_db (AuthUser 1) 9 = (not_found, demo_db) \<and>
   hideComment demo_db (AuthUser 1) 9 = (not_found, demo_db)"
proof -
  have m: "items_with_pk demo_db 7 = []"
    by (simp add: items_with_pk_def demo_db_def pasta_def)
  have n: "comments_with_pk demo_db 9 = []"
    by (simp add: comments_with_pk_def demo_db_def)
  from missing_target_is_not_found
         [where d = demo_db and pk = 7 and k = 9 and c = "AuthUser 2" and u = 2
            and upd = demo_super_update and data = "''Penne''" and rdata = "Some 5" and s = 5
            and w = "''Edited''"]
    missing_target_is_not_found
         [where d = demo_db and pk = 7 and k = 9 and c = AnonymousUser and u = 1
            and upd = demo_super_update and data = "''Penne''" and rdata = "Some 5" and s = 5
            and w = "''Edited''"]
    m n
  show ?thesis by blast
qed

text \<open>
  The claim as stated fails: an anonymous caller who rates or likes a recipe that does
  not exist is answered 401, not not-found.
\<close>

theorem anonymous_rate_of_missing_item_is_401:
  "items_with_pk demo_db 7 = [] \<and>
   rate_item demo_db AnonymousUser 7 (Some 5) = (not_authenticated, demo_db) \<and>
   like_recipe demo_db AnonymousUser 7 = (not_authenticated, demo_db) \<and>
   status not_authenticated = 401 \<and> status not_found = 404"
  by (simp add: rate_item_def like_recipe_def items_with_pk_def not_authenticated_def
      not_found_def demo_db_def pasta_def)

subsection \<open>Free-text search\<close>

lemma startswith_iff: "startswith hay n \<longleftrightarrow> (\<exists>post. hay = n @ post)"
  by (induction hay n rule: startswith.induct) auto

lemma contains_iff: "contains hay n \<longleftrightarrow> (\<exists>pre post. hay = pre @ n @ post)"
proof (induction hay)
  case Nil
  then show ?case by auto
next
  case (Cons h hs)
  show ?case
  proof
    assume "contains (h # hs) n"
    then consider "startswith (h # hs) n" | "contains hs n" by auto
    then show "\<exists>pre post. h # hs = pre @ n @ post"
    proof cases
      case 1
      then obtain post where "h # hs = n @ post" by (auto simp: startswith_iff)
      then have "h # hs = [] @ n @ post" by simp
      then show ?thesis by blast
    next
      case 2
      with Cons.IH obtain pre post where "hs = pre @ n @ post" by blast
      then have "h # hs = (h # pre) @ n @ post" by simp
      then show ?thesis by blast
    qed
  next
    assume "\<exists>pre post. h # hs = pre @ n @ post"
    then obtain pre post where e: "h # hs = pre @ n @ post" by blast
    show "contains (h # hs) n"
    proof (cases pre)
      case Nil
      with e have "startswith (h # hs) n" by (auto simp: startswith_iff)
      then show ?thesis by simp
    next
      case (Cons a pre')
      with e have "hs = pre' @ n @ post" by simp
      with Cons.IH have "contains hs n" by blast
      then show ?thesis by simp
    qed
  qed
qed

lemma icontains_iff: "icontains s q \<longleftrightarrow> ci_substring q s"
  by (simp add: icontains_def ci_substring_def contains_iff)

lemma list_ex_iff_bex: "list_ex P xs \<longleftrightarrow> (\<exists>x\<in>set xs. P x)"
  by (simp add: list_ex_iff)

text \<open>
  What the two searches compute. For every store and every query string q,
  \<^verbatim>\<open>get_queryset\<close> with the search parameter q and no other filter returns exactly the
  recipes, in stored order, for which q is a case-insensitive substring of the title or of
  the description; \<^verbatim>\<open>search_recipes\<close> returns nothing for the empty q and otherwise the
  first 20 recipes for which q is a case-insensitive substring of the title, of the
  description or of the author's user name.
\<close>

lemma search_matches_title_or_description:
  "get_queryset d (Some q) None =
     filter (\<lambda>r. ci_substring q (title r) \<or> ci_substring q (description r)) (items d) \<and>
   search_recipes d q =
     (if q = [] then []
      else take 20 (filter (\<lambda>r. ci_substring q (title r) \<or> ci_substring q (description r) \<or>
                       (\<exists>u\<in>set (users d). user_pk u = author r \<and> ci_substring q (username u)))
                     (items d)))"
proof -
  have empty: "ci_substring [] s" for s
    unfolding ci_substring_def by (rule exI [of _ "[]"]) simp
  show ?thesis
    by (simp add: get_queryset_def search_recipes_def author_username_icontains_def
        icontains_iff list_ex_iff_bex empty)
qed

lemma search_matches_title_or_description_examples:
  "get_queryset demo_db (Some ''PAST'') None = [pasta] \<and>
   get_queryset demo_db (Some ''dinner'') None = [pasta] \<and>
   search_recipes demo_db ''ALICE'' = [pasta] \<and>
   search_recipes demo_db [] = []"
proof -
  have "icontains (title pasta) ''PAST''" "icontains (description pasta) ''dinner''"
    "icontains (username alice) ''ALICE''" "\<not> icontains (title pasta) ''ALICE''"
    "\<not> icontains (description pasta) ''ALICE''" "\<not> icontains (username bob) ''ALICE''"
    by code_simp+
  then have a: "ci_substring ''PAST'' (title pasta)" "ci_substring ''dinner'' (description pasta)"
    "ci_substring ''ALICE'' (username alice)" "\<not> ci_substring ''ALICE'' (title pasta)"
    "\<not> ci_substring ''ALICE'' (description pasta)" "\<not> ci_substring ''ALICE'' (username bob)"
    by (simp_all add: icontains_iff)
  have u: "user_pk alice = author pasta"
    by (simp add: alice_def pasta_def)
  from search_matches_title_or_description [of demo_db "''PAST''"]
    search_matches_title_or_description [of demo_db "''dinner''"]
    search_matches_title_or_description [of demo_db "''ALICE''"]
    search_matches_title_or_description [of demo_db "[]"]
  show ?thesis
    by (simp add: a u demo_db_def)
qed


subsection \<open>The bound on the total time\<close>

text \<open>
  C8. The \<^verbatim>\<open>max_time\<close> filter of the recipe listing bounds \<^verbatim>\<open>prep_time + cook_time\<close>:
  a stored recipe with \<^verbatim>\<open>prep_time = 10\<close> and \<^verbatim>\<open>cook_time = 20\<close> is excluded from the
  listing with \<^verbatim>\<open>max_time = 25\<close> and included in the listing with \<^verbatim>\<open>max_time = 30\<close>;
  in general the listing with bound m holds exactly the stored recipes whose total time
  is at most m.
\<close>

theorem max_time_bounds_total_time:
  assumes "r \<in> set (items d)" and "prep_time r = 10" and "cook_time r = 20"
  shows "r \<notin> set (listRecipes d (Some 25)) \<and> r \<in> set (listRecipes d (Some 30)) \<and>
         set (listRecipes d (Some m)) = {x \<in> set (items d). prep_time x + cook_time x \<le> m}"
  using assms by (auto simp: listRecipes_def)

theorem max_time_bounds_total_time_witness:
  "pasta \<in> set (items demo_db) \<and> prep_time pasta = 10 \<and> cook_time pasta = 20 \<and>
   title pasta = ''Pasta'' \<and>
   pasta \<notin> set (listRecipes demo_db (Some 25)) \<and> pasta \<in> set (listRecipes demo_db (Some 30))"
proof -
  have h: "pasta \<in> set (items demo_db)" "prep_time pasta = 10" "cook_time pasta = 20"
    "title pasta = ''Pasta''"
    by (simp_all add: demo_db_def pasta_def)
  from max_time_bounds_total_time [OF h(1) h(2) h(3)] h show ?thesis by blast
qed

subsection \<open>Comments, newest first\<close>

lemma Comment_objects_sorted:
  "sorted_wrt (\<lambda>a b. created_at b \<le> created_at a) (Comment_objects d)"
proof -
  have "sorted (map created_at (sort_key created_at (comments d)))"
    by (rule sorted_sort_key)
  then have "sorted_wrt (\<lambda>a b. created_at a \<le> created_at b) (sort_key created_at (comments d))"
    by (simp add: sorted_map)
  then show ?thesis
    by (simp add: Comment_objects_def sorted_wrt_rev)
qed

text \<open>
  C9. For every store and every recipe, the comment listing is in reverse-chronological
  order of creation (each comment is at least as new as every comment after it), and it
  holds exactly the stored comments of the recipe that are not hidden.
\<close>

theorem comments_newest_first:
  "sorted_wrt (\<lambda>a b. created_at b \<le> created_at a) (listComments d r) \<and>
   mset (listComments d r) = filter_mset (\<lambda>c. comment_item c = r \<and> \<not> hidden c) (mset (comments d))"
proof
  show "sorted_wrt (\<lambda>a b. created_at b \<le> created_at a) (listComments d r)"
    unfolding listComments_def by (rule sorted_wrt_filter [OF Comment_objects_sorted])
  show "mset (listComments d r)
        = filter_mset (\<lambda>c. comment_item c = r \<and> \<not> hidden c) (mset (comments d))"
    by (simp add: listComments_def Comment_objects_def)
qed

theorem comments_newest_first_witness:
  "map comment_pk (listComments commented_db 1) = [2, 1] \<and>
   sorted_wrt (\<lambda>a b. created_at b \<le> created_at a) (listComments commented_db 1)"
proof -
  have "map comment_pk (listComments commented_db 1) = [2, 1]"
    by code_simp
  with comments_newest_first [of commented_db 1] show ?thesis by blast
qed

end
